theory Spec2Isabelle
  imports Main "HOL-Library.AList"
begin

section \<open>Values, dictionaries and exceptions\<close>

text \<open>
  The values that travel through the framework are Python values: the attribute values of
  a model object, the values of a request dictionary, the attributes of a stored item.
  A dictionary is an association list; the order of the list is the order in which
  \<^verbatim>\<open>.items()\<close> visits it. \<^verbatim>\<open>d[k] = v\<close> is \<open>AList.update k v d\<close> (in place
  when the key is there, at the end otherwise), \<^verbatim>\<open>del d[k]\<close> is \<open>AList.delete k d\<close>,
  \<^verbatim>\<open>k in d\<close> is \<open>key_in d k\<close> and \<^verbatim>\<open>d[k]\<close> is \<open>map_of d k\<close>.
\<close>

datatype val =
    VNone
  | VBool bool
  | VInt int
  | VStr string
  | VList "val list"
  | VDict "(string \<times> val) list"

type_synonym dict = "(string \<times> val) list"

text \<open>Python's truth test, as \<^verbatim>\<open>not x\<close> and \<^verbatim>\<open>if x\<close> apply it.\<close>

fun truthy :: "val \<Rightarrow> bool" where
  "truthy VNone = False"
| "truthy (VBool b) = b"
| "truthy (VInt i) = (i \<noteq> 0)"
| "truthy (VStr s) = (s \<noteq> [])"
| "truthy (VList xs) = (xs \<noteq> [])"
| "truthy (VDict d) = (d \<noteq> [])"

definition key_in :: "dict \<Rightarrow> string \<Rightarrow> bool" where
  "key_in d k = (k \<in> set (map fst d))"

text \<open>
  The exceptions of the package (\<^verbatim>\<open>InvalidObjectException\<close>, \<^verbatim>\<open>RecordNotFoundException\<close>,
  \<^verbatim>\<open>MultipleMatchException\<close>, \<^verbatim>\<open>ClientErrorException\<close>), Python's generic
  \<^verbatim>\<open>Exception\<close> with its message, and the built-in errors the code can run into.
  \<open>AccessDenied\<close> is the refusal of the role check.
\<close>

datatype error =
    InvalidObjectException string
  | RecordNotFoundException string
  | MultipleMatchException string
  | ClientErrorException string
  | Exception string
  | UnboundLocalError string
  | IndexError string
  | KeyError string
  | AccessDenied

text \<open>\<^verbatim>\<open>'"{}"'.format(s)\<close>: the text between double quotes.\<close>

definition quoted :: "string \<Rightarrow> string" where
  "quoted s = CHR 0x22 # s @ [CHR 0x22]"

section \<open>Base.Object\<close>

text \<open>
  A model class is what its subclass of \<^verbatim>\<open>Base.Object\<close> supplies: its name, the
  attributes its \<^verbatim>\<open>__init__\<close> sets with their initial values, and its validator.
  \<^verbatim>\<open>Object.get_validator\<close> raises unless the subclass overrides it, and
  \<^verbatim>\<open>Validator.get_field_requirements\<close> raises unless the validator class overrides it.
\<close>

datatype validator_hook =
    ValidatorUndefined
  | RequirementsUndefined
  | Requirements "(string \<times> string) list"

record klass =
  cname :: string
  init_attrs :: dict
  get_validator :: validator_hook

text \<open>An object is its class and its \<^verbatim>\<open>__dict__\<close>.\<close>

record object =
  cls :: klass
  attrs :: dict

definition FIELD_REQUIRED :: string where
  "FIELD_REQUIRED = ''required''"

definition FIELD_OPTIONAL :: string where
  "FIELD_OPTIONAL = ''optional''"

text \<open>
  \<^verbatim>\<open>klass()\<close>: a fresh instance holding the attributes of \<^verbatim>\<open>__init__\<close>.
\<close>

definition new_object :: "klass \<Rightarrow> object" where
  "new_object k = \<lparr>cls = k, attrs = init_attrs k\<rparr>"

text \<open>
  \<^verbatim>\<open>setattr(obj, key, value)\<close> on an instance of a plain class stores into
  \<^verbatim>\<open>__dict__\<close>. No class of the package defines a property, \<^verbatim>\<open>__slots__\<close> or
  \<^verbatim>\<open>__setattr__\<close>, so the assignment never raises \<^verbatim>\<open>AttributeError\<close> and the
  \<^verbatim>\<open>except AttributeError: pass\<close> of \<^verbatim>\<open>Factory.construct\<close> has nothing to catch.
\<close>

definition setattr :: "object \<Rightarrow> string \<Rightarrow> val \<Rightarrow> object" where
  "setattr obj key v = obj\<lparr>attrs := AList.update key v (attrs obj)\<rparr>"

text \<open>
  The name under which an attribute is exposed: \<^verbatim>\<open>key\<close> when \<^verbatim>\<open>key[0] != '_'\<close>,
  \<^verbatim>\<open>key[1:]\<close> otherwise. \<^verbatim>\<open>key[0]\<close> raises on the empty string.
\<close>

fun exposed_name :: "string \<Rightarrow> error + string" where
  "exposed_name [] = Inl (IndexError ''string index out of range'')"
| "exposed_name (c # cs) = Inr (if c \<noteq> CHR ''_'' then c # cs else cs)"

fun to_dict_loop :: "dict \<Rightarrow> dict \<Rightarrow> error + dict" where
  "to_dict_loop [] data = Inr data"
| "to_dict_loop ((key, v) # rest) data =
     (case exposed_name key of
        Inl e \<Rightarrow> Inl e
      | Inr name \<Rightarrow> to_dict_loop rest (AList.update name v data))"

definition to_dict :: "object \<Rightarrow> error + dict" where
  "to_dict obj = to_dict_loop (attrs obj) []"

fun fields_loop :: "dict \<Rightarrow> string list \<Rightarrow> error + string list" where
  "fields_loop [] fs = Inr fs"
| "fields_loop ((key, v) # rest) fs =
     (case exposed_name key of
        Inl e \<Rightarrow> Inl e
      | Inr name \<Rightarrow> fields_loop rest (fs @ [name]))"

definition object_fields :: "object \<Rightarrow> error + string list" where
  "object_fields obj = fields_loop (attrs obj) []"

text \<open>
  \<^verbatim>\<open>set_from_data\<close> walks the keys the object has when the loop starts and assigns
  \<^verbatim>\<open>data[key]\<close> to those that are keys of \<^verbatim>\<open>data\<close>.
\<close>

fun set_from_data_loop :: "string list \<Rightarrow> dict \<Rightarrow> object \<Rightarrow> object" where
  "set_from_data_loop [] data obj = obj"
| "set_from_data_loop (key # keys) data obj =
     set_from_data_loop keys data
       (case map_of data key of
          Some v \<Rightarrow> setattr obj key v
        | None \<Rightarrow> obj)"

definition set_from_data :: "object \<Rightarrow> dict \<Rightarrow> object" where
  "set_from_data obj data = set_from_data_loop (map fst (attrs obj)) data obj"

section \<open>Base.Validator\<close>

definition get_field_requirements :: "klass \<Rightarrow> error + (string \<times> string) list" where
  "get_field_requirements k =
     (case get_validator k of
        ValidatorUndefined \<Rightarrow> Inl (Exception ''SYSTEM ERROR: validator not defined.'')
      | RequirementsUndefined \<Rightarrow> Inl (Exception ''SYSTEM ERROR: field requirements not defined.'')
      | Requirements reqs \<Rightarrow> Inr reqs)"

definition missing_message :: "string \<Rightarrow> string" where
  "missing_message key = ''Missing required field '' @ quoted key"

text \<open>
  The loop of \<^verbatim>\<open>_validate_required_fields\<close> over the items of the field requirements,
  with the pair \<^verbatim>\<open>(valid, errors)\<close> it builds. \<^verbatim>\<open>to_dict()\<close> is evaluated only at a
  required entry.
\<close>

fun required_fields_loop ::
  "object \<Rightarrow> (string \<times> string) list \<Rightarrow> bool \<times> string list \<Rightarrow> error + (bool \<times> string list)" where
  "required_fields_loop obj [] acc = Inr acc"
| "required_fields_loop obj ((key, value) # rest) (valid, errors) =
     (if value = FIELD_REQUIRED then
        (case to_dict obj of
           Inl e \<Rightarrow> Inl e
         | Inr d \<Rightarrow>
             (case map_of d key of
                None \<Rightarrow> required_fields_loop obj rest (False, errors @ [missing_message key])
              | Some v \<Rightarrow>
                  if truthy v then required_fields_loop obj rest (valid, errors)
                  else required_fields_loop obj rest (False, errors @ [missing_message key])))
      else required_fields_loop obj rest (valid, errors))"

definition validate_required_fields :: "object \<Rightarrow> error + (bool \<times> string list)" where
  "validate_required_fields obj =
     (case get_field_requirements (cls obj) of
        Inl e \<Rightarrow> Inl e
      | Inr reqs \<Rightarrow> required_fields_loop obj reqs (True, []))"

text \<open>\<^verbatim>\<open>Validator._validate\<close>: no class of the package overrides it.\<close>

definition validate_other :: "object \<Rightarrow> bool \<times> string list" where
  "validate_other obj = (True, [])"

definition get_validation_errors :: "object \<Rightarrow> error + string list" where
  "get_validation_errors obj =
     (case validate_required_fields obj of
        Inl e \<Rightarrow> Inl e
      | Inr (rv, requirements_errors) \<Rightarrow>
          Inr (requirements_errors @ snd (validate_other obj)))"

definition validate :: "object \<Rightarrow> error + unit" where
  "validate obj =
     (case get_validation_errors obj of
        Inl e \<Rightarrow> Inl e
      | Inr errors \<Rightarrow>
          (case errors of
             [] \<Rightarrow> Inr ()
           | e0 # es \<Rightarrow> Inl (InvalidObjectException e0)))"

section \<open>The backing store\<close>

text \<open>
  The table resource of the database client is not code of the package. Its state is kept
  in a \<open>world\<close>: the items of each table, the answer the store gives to an index query
  (\<open>None\<close> when the response has no \<^verbatim>\<open>Items\<close>), the round trips made so far, each with
  the persister that made it, and the number of persisters constructed so far, which
  gives every new \<^verbatim>\<open>Persister\<close> instance its identity.
  A key condition is what \<^verbatim>\<open>Key(key).eq(value)\<close> and \<^verbatim>\<open>&\<close> build.
\<close>

datatype cond = Eq string val | And cond cond

record persister =
  pid :: nat
  table_name :: string

datatype call =
    GetItem persister dict
  | PutItem persister dict
  | Query persister val "cond option"

record world =
  rows :: "string \<Rightarrow> dict list"
  query_response :: "string \<Rightarrow> val \<Rightarrow> cond option \<Rightarrow> dict list option"
  calls :: "call list"
  created :: nat

definition matches :: "dict \<Rightarrow> dict \<Rightarrow> bool" where
  "matches key item = list_all (\<lambda>(k, v). map_of item k = Some v) key"

definition get_item :: "persister \<Rightarrow> dict \<Rightarrow> world \<Rightarrow> dict option \<times> world" where
  "get_item p key w =
     (find (matches key) (rows w (table_name p)), w\<lparr>calls := calls w @ [GetItem p key]\<rparr>)"

definition put_item :: "persister \<Rightarrow> dict \<Rightarrow> world \<Rightarrow> world" where
  "put_item p item w =
     w\<lparr>rows := (rows w)(table_name p :=
          item # filter (\<lambda>r. map_of r ''uuid'' \<noteq> map_of item ''uuid'') (rows w (table_name p))),
       calls := calls w @ [PutItem p item]\<rparr>"

definition table_query ::
  "persister \<Rightarrow> val \<Rightarrow> cond option \<Rightarrow> world \<Rightarrow> dict list option \<times> world" where
  "table_query p index_name expression w =
     (query_response w (table_name p) index_name expression,
      w\<lparr>calls := calls w @ [Query p index_name expression]\<rparr>)"

section \<open>Base.Persister\<close>

fun persistable_loop :: "dict \<Rightarrow> dict \<Rightarrow> dict" where
  "persistable_loop [] new_dict = new_dict"
| "persistable_loop ((key, v) # rest) new_dict =
     persistable_loop rest (if v \<noteq> VStr [] then AList.update key v new_dict else new_dict)"

definition get_persistable_object :: "object \<Rightarrow> error + dict" where
  "get_persistable_object obj =
     (case to_dict obj of
        Inl e \<Rightarrow> Inl e
      | Inr d \<Rightarrow> Inr (persistable_loop d []))"

definition save :: "persister \<Rightarrow> object \<Rightarrow> world \<Rightarrow> (error + unit) \<times> world" where
  "save p obj w =
     (case validate obj of
        Inl e \<Rightarrow> (Inl e, w)
      | Inr u \<Rightarrow>
          (case get_persistable_object obj of
             Inl e \<Rightarrow> (Inl e, w)
           | Inr persist_obj \<Rightarrow> (Inr (), put_item p persist_obj w)))"

definition get :: "persister \<Rightarrow> dict \<Rightarrow> world \<Rightarrow> (error + dict) \<times> world" where
  "get p key w =
     (case get_item p key w of
        (Some item, w') \<Rightarrow> (Inr item, w')
      | (None, w') \<Rightarrow> (Inl (RecordNotFoundException ''Record not found''), w'))"

text \<open>
  \<^verbatim>\<open>Persister.query\<close>. The local variable \<^verbatim>\<open>index_name\<close> is \<open>None\<close> while nothing has
  been assigned to it; reading it then raises \<^verbatim>\<open>UnboundLocalError\<close>. \<^verbatim>\<open>expression\<close>
  starts as Python's \<^verbatim>\<open>None\<close>, here \<open>None\<close> too. The function returns, with its
  result, the caller's dictionary as the call leaves it.
\<close>

definition unbound_index_name :: error where
  "unbound_index_name =
     UnboundLocalError ''local variable 'index_name' referenced before assignment''"

fun query_loop :: "dict \<Rightarrow> val option \<Rightarrow> cond option \<Rightarrow> error + (val option \<times> cond option)" where
  "query_loop [] index_name expression = Inr (index_name, expression)"
| "query_loop ((key, v) # rest) index_name expression =
     (case index_name of
        None \<Rightarrow> Inl unbound_index_name
      | Some i \<Rightarrow>
          query_loop rest
            (Some (if \<not> truthy i then VStr key else i))
            (Some (case expression of
                     Some e \<Rightarrow> And e (Eq key v)
                   | None \<Rightarrow> Eq key v)))"

definition query ::
  "persister \<Rightarrow> dict \<Rightarrow> world \<Rightarrow> (error + dict list) \<times> dict \<times> world" where
  "query p search_data w =
     (let index_name =
            (if key_in search_data ''__index__'' then map_of search_data ''__index__'' else None);
          search_data' =
            (if key_in search_data ''__index__'' then AList.delete ''__index__'' search_data
             else search_data)
      in case query_loop search_data' index_name None of
           Inl e \<Rightarrow> (Inl e, search_data', w)
         | Inr (None, expression) \<Rightarrow> (Inl unbound_index_name, search_data', w)
         | Inr (Some i, expression) \<Rightarrow>
             (case table_query p i expression w of
                (None, w') \<Rightarrow> (Inl (Exception ''Error searching''), search_data', w')
              | (Some items, w') \<Rightarrow> (Inr items, search_data', w')))"

section \<open>Base.Factory\<close>

text \<open>
  A factory is what its subclass supplies, \<^verbatim>\<open>_get_object_class\<close> and
  \<^verbatim>\<open>get_persister\<close>, and the attribute \<^verbatim>\<open>__persister\<close>. Both hooks raise in the base
  class. A persister class names its table in \<^verbatim>\<open>_get_table_name\<close>, which raises in the
  base class as well, when \<^verbatim>\<open>Persister.__init__\<close> calls it.
\<close>

datatype persister_hook = PersisterUndefined | PersisterClass "string option"

record factory =
  object_class :: "klass option"
  persister_class :: persister_hook
  cached :: "persister option"

definition get_object_class :: "factory \<Rightarrow> error + klass" where
  "get_object_class f =
     (case object_class f of
        None \<Rightarrow> Inl (Exception ''SYSTEM ERROR: class not defined.'')
      | Some k \<Rightarrow> Inr k)"

definition new_persister :: "string option \<Rightarrow> world \<Rightarrow> (error + persister) \<times> world" where
  "new_persister name w =
     (case name of
        None \<Rightarrow> (Inl (Exception ''SYSTEM ERROR: No table name specified.''), w)
      | Some n \<Rightarrow> (Inr \<lparr>pid = created w, table_name = n\<rparr>, w\<lparr>created := Suc (created w)\<rparr>))"

definition get_persister :: "factory \<Rightarrow> world \<Rightarrow> (error + persister) \<times> world" where
  "get_persister f w =
     (case persister_class f of
        PersisterUndefined \<Rightarrow> (Inl (Exception ''SYSTEM ERROR: persister not defined.''), w)
      | PersisterClass name \<Rightarrow> new_persister name w)"

text \<open>The property \<^verbatim>\<open>_persister\<close>. A \<^verbatim>\<open>Persister\<close> instance is truthy.\<close>

definition persister_property ::
  "factory \<Rightarrow> world \<Rightarrow> (error + persister) \<times> factory \<times> world" where
  "persister_property f w =
     (case cached f of
        Some p \<Rightarrow> (Inr p, f, w)
      | None \<Rightarrow>
          (case get_persister f w of
             (Inl e, w') \<Rightarrow> (Inl e, f, w')
           | (Inr p, w') \<Rightarrow> (Inr p, f\<lparr>cached := Some p\<rparr>, w')))"

definition unknown_field :: "klass \<Rightarrow> string \<Rightarrow> error" where
  "unknown_field k key = Exception (''Unknown '' @ quoted (cname k) @ '' field '' @ quoted key)"

text \<open>
  The loop of \<^verbatim>\<open>construct\<close> over \<^verbatim>\<open>data.items()\<close>: \<open>items\<close> are the items still to
  visit, \<open>data\<close> is the whole dictionary, which \<^verbatim>\<open>data[key]\<close> reads.
\<close>

fun construct_loop :: "klass \<Rightarrow> bool \<Rightarrow> dict \<Rightarrow> dict \<Rightarrow> object \<Rightarrow> error + object" where
  "construct_loop k invalid_field_exceptions data [] obj = Inr obj"
| "construct_loop k invalid_field_exceptions data ((key, u) # rest) obj =
     (case object_fields obj of
        Inl e \<Rightarrow> Inl e
      | Inr fs \<Rightarrow>
          if key \<in> set fs then
            (case map_of data key of
               None \<Rightarrow> Inl (KeyError key)
             | Some v \<Rightarrow> construct_loop k invalid_field_exceptions data rest (setattr obj key v))
          else if invalid_field_exceptions then Inl (unknown_field k key)
          else construct_loop k invalid_field_exceptions data rest obj)"

definition construct :: "factory \<Rightarrow> dict \<Rightarrow> bool \<Rightarrow> error + object" where
  "construct f data invalid_field_exceptions =
     (case get_object_class f of
        Inl e \<Rightarrow> Inl e
      | Inr k \<Rightarrow> construct_loop k invalid_field_exceptions data data (new_object k))"

definition load_from_database ::
  "factory \<Rightarrow> dict \<Rightarrow> world \<Rightarrow> (error + object) \<times> factory \<times> world" where
  "load_from_database f search_data w =
     (case persister_property f w of
        (Inl e, f', w') \<Rightarrow> (Inl e, f', w')
      | (Inr p, f', w') \<Rightarrow>
          (case get p search_data w' of
             (Inl e, w'') \<Rightarrow> (Inl e, f', w'')
           | (Inr item_data, w'') \<Rightarrow> (construct f' item_data True, f', w'')))"

definition load_by_uuid ::
  "factory \<Rightarrow> val \<Rightarrow> world \<Rightarrow> (error + object) \<times> factory \<times> world" where
  "load_by_uuid f uuid w = load_from_database f [(''uuid'', uuid)] w"


section \<open>CRUD.Controller\<close>

datatype role = ROLE_COUNCIL_ADMIN | ROLE_UNIT_ADMIN | ROLE_GUARDIAN | ROLE_OTHER string

text \<open>
  Modelled from the spec: the module \<^verbatim>\<open>Security\<close> with \<^verbatim>\<open>require_role\<close> and the role
  constants is missing from the sources. The spec says of it that a controller method
  declares an allow-list of roles, that the caller must hold at least one of them, and
  that the call is denied otherwise, before any factory or persister call.
\<close>

definition require_role :: "role list \<Rightarrow> role list \<Rightarrow> bool" where
  "require_role allowed held = list_ex (\<lambda>r. r \<in> set allowed) held"

definition crud_roles :: "role list" where
  "crud_roles = [ROLE_COUNCIL_ADMIN, ROLE_UNIT_ADMIN, ROLE_GUARDIAN]"

record controller =
  user :: "role list"
  factory :: factory


definition controller_set ::
  "controller \<Rightarrow> dict \<Rightarrow> world \<Rightarrow> (error + object) \<times> controller \<times> world" where
  "controller_set c data w =
     (if require_role crud_roles (user c) then
        (case construct (factory c) data True of
           Inl e \<Rightarrow> (Inl e, c, w)
         | Inr obj \<Rightarrow>
             (case validate obj of
                Inl e \<Rightarrow> (Inl e, c, w)
              | Inr u \<Rightarrow> (Inr obj, c, w)))
      else (Inl AccessDenied, c, w))"

definition controller_update ::
  "controller \<Rightarrow> dict \<Rightarrow> world \<Rightarrow> (error + object) \<times> controller \<times> world" where
  "controller_update c data w =
     (if require_role crud_roles (user c) then
        (if key_in data ''uuid'' \<and> truthy (the (map_of data ''uuid'')) then
           (case load_by_uuid (factory c) (the (map_of data ''uuid'')) w of
              (Inl e, f', w') \<Rightarrow> (Inl e, c\<lparr>factory := f'\<rparr>, w')
            | (Inr obj, f', w') \<Rightarrow>
                (case validate (set_from_data obj data) of
                   Inl e \<Rightarrow> (Inl e, c\<lparr>factory := f'\<rparr>, w')
                 | Inr u \<Rightarrow> (Inr (set_from_data obj data), c\<lparr>factory := f'\<rparr>, w')))
         else (Inl (ClientErrorException ''No uuid specified.''), c, w))
      else (Inl AccessDenied, c, w))"


section \<open>The models of the package and the vocabulary of the properties\<close>

text \<open>The model class \<^verbatim>\<open>User\<close> of \<^verbatim>\<open>models/User.py\<close>.\<close>

definition User :: klass where
  "User = \<lparr>cname = ''User'',
     init_attrs = [(''username'', VStr []), (''password'', VStr []),
       (''guardian_id'', VStr []), (''roles'', VDict []), (''positions'', VList [])],
     get_validator = Requirements
       [(''uuid'', ''required''), (''username'', ''required''), (''password'', ''required''),
        (''roles'', ''optional''), (''positions'', ''optional''), (''guardians'', ''optional'')]\<rparr>"

text \<open>
  A model class written as the package writes them, whose \<^verbatim>\<open>__init__\<close> also sets the
  \<^verbatim>\<open>uuid\<close> its validator requires, with its factory and its table.
\<close>

definition Member :: klass where
  "Member = \<lparr>cname = ''Member'',
     init_attrs = [(''uuid'', VStr []), (''username'', VStr []), (''email'', VStr [])],
     get_validator = Requirements
       [(''uuid'', ''required''), (''username'', ''required''), (''email'', ''optional'')]\<rparr>"

definition Member_Factory :: factory where
  "Member_Factory = \<lparr>object_class = Some Member,
     persister_class = PersisterClass (Some ''Members''), cached = None\<rparr>"

definition Member_row :: dict where
  "Member_row =
     [(''uuid'', VStr ''mem-1''), (''username'', VStr ''old''), (''email'', VStr ''a@b.org'')]"

text \<open>
  A store whose table \<^verbatim>\<open>Members\<close> holds one item and answers every index query on it
  with that item, before any round trip, and a caller who holds an allowed role.
\<close>

definition Member_world :: world where
  "Member_world =
     \<lparr>rows = (\<lambda>t. if t = ''Members'' then [Member_row] else []),
      query_response = (\<lambda>t i e. if t = ''Members'' then Some [Member_row] else Some []),
      calls = [], created = 0\<rparr>"

definition Member_controller :: controller where
  "Member_controller = \<lparr>user = [ROLE_GUARDIAN], factory = Member_Factory\<rparr>"



text \<open>
  A required field is present when it is a key of \<^verbatim>\<open>to_dict()\<close> whose value passes the
  truth test. \<open>missing_required\<close> lists, in the order of the field requirements, the
  required fields that are not.
\<close>

definition present :: "dict \<Rightarrow> string \<Rightarrow> bool" where
  "present d key = (case map_of d key of None \<Rightarrow> False | Some v \<Rightarrow> truthy v)"

definition missing_required :: "dict \<Rightarrow> (string \<times> string) list \<Rightarrow> string list" where
  "missing_required d reqs =
     map fst (filter (\<lambda>(key, value). value = FIELD_REQUIRED \<and> \<not> present d key) reqs)"

text \<open>
  The attribute names of the package's model classes are plain: not empty, not starting
  with an underscore, each declared once. An instance of such a class holds the
  attributes its class declares.
\<close>

definition plain_name :: "string \<Rightarrow> bool" where
  "plain_name key = (case key of [] \<Rightarrow> False | c # cs \<Rightarrow> c \<noteq> CHR ''_'')"

definition plain_keys :: "dict \<Rightarrow> bool" where
  "plain_keys d = (list_all plain_name (map fst d) \<and> distinct (map fst d))"


text \<open>
  \<^verbatim>\<open>to_dict\<close> and \<^verbatim>\<open>fields\<close> expose an attribute under its name without one leading
  underscore. \<open>exposed\<close> is that name for a name that is not empty, \<open>exposed_names\<close> the
  names a dictionary of attributes is exposed under, in its order, and \<open>dict_of_attrs\<close>
  the attributes under those names. A class exposes its attributes well when every one of
  these names is plain and no two attributes share one: each attribute is \<^verbatim>\<open>x\<close> or
  \<^verbatim>\<open>_x\<close> for a plain \<^verbatim>\<open>x\<close>, and never both.
\<close>

definition exposed :: "string \<Rightarrow> string" where
  "exposed key = (case key of [] \<Rightarrow> [] | c # cs \<Rightarrow> if c \<noteq> CHR ''_'' then c # cs else cs)"

definition exposed_names :: "dict \<Rightarrow> string list" where
  "exposed_names d = map (\<lambda>(key, v). exposed key) d"

definition dict_of_attrs :: "dict \<Rightarrow> dict" where
  "dict_of_attrs d = map (\<lambda>(key, v). (exposed key, v)) d"

definition exposes_well :: "dict \<Rightarrow> bool" where
  "exposes_well d = (list_all plain_name (exposed_names d) \<and> distinct (exposed_names d))"







section \<open>Validation\<close>

lemma present_falsy:
  "\<not> present [] key"
  "\<not> present [(key, VStr [])] key"
  "\<not> present [(key, VInt 0)] key"
  "\<not> present [(key, VList [])] key"
  "\<not> present [(key, VDict [])] key"
  by (simp_all add: present_def)

lemma required_fields_loop_result:
  assumes d: "to_dict obj = Inr d"
  shows "required_fields_loop obj reqs (valid, errors) =
     Inr (valid \<and> missing_required d reqs = [],
          errors @ map missing_message (missing_required d reqs))"
proof (induction reqs arbitrary: valid errors)
  case Nil
  show ?case by (simp add: missing_required_def)
next
  case (Cons r reqs)
  obtain key req where r: "r = (key, req)" by (cases r)
  have mr: "missing_required d ((key, req) # reqs) =
      (if req = FIELD_REQUIRED \<and> \<not> present d key then key # missing_required d reqs
       else missing_required d reqs)"
    by (simp add: missing_required_def)
  show ?case
    unfolding r mr
    by (cases "map_of d key") (simp_all add: d Cons.IH present_def)
qed

lemma validate_eq:
  assumes "get_field_requirements (cls obj) = Inr reqs" and "to_dict obj = Inr d"
  shows "validate obj =
     (case missing_required d reqs of
        [] \<Rightarrow> Inr ()
      | key # rest \<Rightarrow> Inl (InvalidObjectException (missing_message key)))"
  by (simp add: validate_def get_validation_errors_def validate_required_fields_def
      validate_other_def assms(1) required_fields_loop_result [OF assms(2)]
      split: list.splits)

text \<open>
  C3. When every required field of the validator's field requirements is a key of
  \<^verbatim>\<open>to_dict()\<close> with a truthy value, \<^verbatim>\<open>validate()\<close> returns without error. When some
  required field is absent or falsy (the empty string, 0 and the empty collection are
  falsy), \<^verbatim>\<open>validate()\<close> raises \<^verbatim>\<open>InvalidObjectException\<close> with the first collected
  message only, and that message names the first missing required field in the order of
  the field requirements.
\<close>

theorem validate_required_fields_first_missing:
  assumes "get_field_requirements (cls obj) = Inr reqs" and "to_dict obj = Inr d"
  shows "validate obj =
     (if filter (\<lambda>(key, value). value = FIELD_REQUIRED \<and> \<not> present d key) reqs = []
      then Inr ()
      else Inl (InvalidObjectException
        (''Missing required field '' @ quoted (hd (missing_required d reqs)))))"
  using validate_eq [OF assms]
  by (cases "missing_required d reqs")
     (auto simp: missing_required_def missing_message_def)

theorem validate_required_fields_first_missing_witness:
  "validate \<lparr>cls = User, attrs = [(''username'', VStr ''bob''), (''password'', VStr ''pw''),
       (''positions'', VList []), (''uuid'', VStr ''usr-1'')]\<rparr> = Inr ()
   \<and> validate \<lparr>cls = User, attrs = [(''username'', VStr []), (''password'', VInt 0),
       (''uuid'', VStr ''usr-1'')]\<rparr>
     = Inl (InvalidObjectException (''Missing required field '' @ quoted ''username''))"
proof -
  let ?reqs = "[(''uuid'', ''required''), (''username'', ''required''),
     (''password'', ''required''), (''roles'', ''optional''), (''positions'', ''optional''),
     (''guardians'', ''optional'')]"
  let ?a = "\<lparr>cls = User, attrs = [(''username'', VStr ''bob''), (''password'', VStr ''pw''),
       (''positions'', VList []), (''uuid'', VStr ''usr-1'')]\<rparr>"
  let ?b = "\<lparr>cls = User, attrs = [(''username'', VStr []), (''password'', VInt 0),
       (''uuid'', VStr ''usr-1'')]\<rparr>"
  have r: "\<And>as. get_field_requirements (cls \<lparr>cls = User, attrs = as\<rparr>) = Inr ?reqs"
    by (simp add: get_field_requirements_def User_def)
  have da: "to_dict ?a = Inr (attrs ?a)" by (simp add: to_dict_def)
  have db: "to_dict ?b = Inr (attrs ?b)" by (simp add: to_dict_def)
  show ?thesis
    using validate_required_fields_first_missing [OF r da]
      validate_required_fields_first_missing [OF r db]
    by (simp add: present_def missing_required_def FIELD_REQUIRED_def)
qed

section \<open>Persister.query\<close>

lemma not_key_in_delete: "\<not> key_in (AList.delete k d) k"
  using delete_notin_dom [of k d] by (simp add: key_in_def)

lemma query_search_data:
  "fst (snd (query p search_data w)) =
     (if key_in search_data ''__index__'' then AList.delete ''__index__'' search_data
      else search_data)"
  by (simp add: query_def Let_def split: sum.split option.split prod.split)

lemma query_without_index:
  assumes "\<not> key_in search_data ''__index__''"
  shows "query p search_data w = (Inl unbound_index_name, search_data, w)"
proof (cases search_data)
  case Nil
  then show ?thesis by (simp add: query_def key_in_def)
next
  case (Cons item rest)
  obtain key v where "item = (key, v)" by (cases item)
  with Cons assms show ?thesis by (simp add: query_def)
qed

lemma query_loop_truthy:
  "truthy i \<Longrightarrow> query_loop search_data (Some i) expression =
     Inr (Some i,
       fold (\<lambda>(key, v) e. Some (case e of Some x \<Rightarrow> And x (Eq key v) | None \<Rightarrow> Eq key v))
         search_data expression)"
  by (induction search_data arbitrary: expression) auto

text \<open>
  C2. Without the key \<^verbatim>\<open>__index__\<close> in \<^verbatim>\<open>search_data\<close> nothing is assigned to
  \<^verbatim>\<open>index_name\<close> before the loop reads it: the query \<^verbatim>\<open>{"name": "X"}\<close> raises
  \<^verbatim>\<open>UnboundLocalError\<close> and the store is never asked.
\<close>

theorem query_without_index_raises:
  "query p [(''name'', VStr ''X'')] w =
     (Inl (UnboundLocalError ''local variable 'index_name' referenced before assignment''),
      [(''name'', VStr ''X'')], w)"
  by (simp add: query_def key_in_def unbound_index_name_def)

text \<open>
  C10. When \<^verbatim>\<open>search_data\<close> has the key \<^verbatim>\<open>__index__\<close>, the call deletes it from the
  caller's dictionary: whatever the call returns or raises, the dictionary it leaves is the
  caller's without that key, every other item unchanged.
\<close>

theorem query_deletes_index_key:
  assumes "key_in search_data ''__index__''"
  shows "fst (snd (query p search_data w)) = AList.delete ''__index__'' search_data
    \<and> \<not> key_in (fst (snd (query p search_data w))) ''__index__''"
  using assms by (simp add: query_search_data not_key_in_delete)

theorem query_deletes_index_key_witness:
  "key_in [(''__index__'', VStr ''by_name''), (''name'', VStr ''X'')] ''__index__''
   \<and> fst (snd (query \<lparr>pid = 0, table_name = ''Members''\<rparr>
        [(''__index__'', VStr ''by_name''), (''name'', VStr ''X'')] Member_world))
      = [(''name'', VStr ''X'')]"
  using query_deletes_index_key [of "[(''__index__'', VStr ''by_name''), (''name'', VStr ''X'')]"
      "\<lparr>pid = 0, table_name = ''Members''\<rparr>" Member_world]
  by (simp add: key_in_def)

section \<open>The controller and the store\<close>

lemma controller_set_world: "snd (snd (controller_set c data w)) = w"
  by (simp add: controller_set_def split: sum.split)

lemma Member_fields:
  "object_fields \<lparr>cls = Member, attrs = [(''uuid'', a), (''username'', b), (''email'', c)]\<rparr>
     = Inr [''uuid'', ''username'', ''email'']"
  by (simp add: object_fields_def)

lemma Member_to_dict:
  "to_dict \<lparr>cls = Member, attrs = [(''uuid'', a), (''username'', b), (''email'', c)]\<rparr>
     = Inr [(''uuid'', a), (''username'', b), (''email'', c)]"
  by (simp add: to_dict_def)

lemma Member_requirements:
  "get_field_requirements (cls \<lparr>cls = Member, attrs = as\<rparr>) =
     Inr [(''uuid'', ''required''), (''username'', ''required''), (''email'', ''optional'')]"
  by (simp add: get_field_requirements_def Member_def)

lemma Member_validate:
  "truthy a \<Longrightarrow> truthy b \<Longrightarrow>
   validate \<lparr>cls = Member, attrs = [(''uuid'', a), (''username'', b), (''email'', c)]\<rparr> = Inr ()"
  by (simp add: validate_eq [OF Member_requirements Member_to_dict] missing_required_def
      present_def FIELD_REQUIRED_def)

lemma Member_construct:
  "construct Member_Factory [(''uuid'', VStr ''mem-1''), (''username'', VStr ''new'')] True =
     Inr \<lparr>cls = Member,
       attrs = [(''uuid'', VStr ''mem-1''), (''username'', VStr ''new''), (''email'', VStr [])]\<rparr>"
  by (simp add: construct_def get_object_class_def Member_Factory_def new_object_def
      Member_fields [unfolded Member_def] setattr_def Member_def)

lemma Member_load:
  "load_by_uuid Member_Factory (VStr ''mem-1'') Member_world =
     (Inr \<lparr>cls = Member, attrs = Member_row\<rparr>,
      Member_Factory\<lparr>cached := Some \<lparr>pid = 0, table_name = ''Members''\<rparr>\<rparr>,
      Member_world\<lparr>calls := [GetItem \<lparr>pid = 0, table_name = ''Members''\<rparr> [(''uuid'', VStr ''mem-1'')]],
        created := Suc 0\<rparr>)"
  by (simp add: load_by_uuid_def load_from_database_def persister_property_def
      get_persister_def new_persister_def Member_Factory_def Member_world_def get_def
      get_item_def matches_def Member_row_def construct_def get_object_class_def
      new_object_def setattr_def Member_fields [unfolded Member_def] Member_def)

text \<open>
  C1. Neither \<^verbatim>\<open>Controller.set\<close> nor \<^verbatim>\<open>Controller.update\<close> writes. On a store whose
  table holds the member \<^verbatim>\<open>mem-1\<close>, \<^verbatim>\<open>set\<close> of new data for \<^verbatim>\<open>mem-1\<close> returns the
  new object and leaves the store as it was, without a round trip; \<^verbatim>\<open>update\<close> returns
  the merged object after one read, and the table still holds the old item.
\<close>

theorem controller_set_update_do_not_write:
  "controller_set Member_controller
       [(''uuid'', VStr ''mem-1''), (''username'', VStr ''new'')] Member_world
     = (Inr \<lparr>cls = Member,
          attrs = [(''uuid'', VStr ''mem-1''), (''username'', VStr ''new''), (''email'', VStr [])]\<rparr>,
        Member_controller, Member_world)
   \<and> fst (controller_update Member_controller
       [(''uuid'', VStr ''mem-1''), (''username'', VStr ''new'')] Member_world)
     = Inr \<lparr>cls = Member,
          attrs = [(''uuid'', VStr ''mem-1''), (''username'', VStr ''new''),
            (''email'', VStr ''a@b.org'')]\<rparr>
   \<and> calls (snd (snd (controller_update Member_controller
       [(''uuid'', VStr ''mem-1''), (''username'', VStr ''new'')] Member_world)))
     = [GetItem \<lparr>pid = 0, table_name = ''Members''\<rparr> [(''uuid'', VStr ''mem-1'')]]
   \<and> rows (snd (snd (controller_update Member_controller
       [(''uuid'', VStr ''mem-1''), (''username'', VStr ''new'')] Member_world))) ''Members''
     = [[(''uuid'', VStr ''mem-1''), (''username'', VStr ''old''), (''email'', VStr ''a@b.org'')]]"
proof -
  have auth: "require_role crud_roles (user Member_controller)"
    by (simp add: require_role_def crud_roles_def Member_controller_def)
  have f: "factory Member_controller = Member_Factory"
    by (simp add: Member_controller_def)
  have s: "set_from_data \<lparr>cls = Member, attrs = Member_row\<rparr>
        [(''uuid'', VStr ''mem-1''), (''username'', VStr ''new'')]
      = \<lparr>cls = Member, attrs = [(''uuid'', VStr ''mem-1''), (''username'', VStr ''new''),
            (''email'', VStr ''a@b.org'')]\<rparr>"
    by (simp add: set_from_data_def Member_row_def setattr_def)
  have 1: "controller_set Member_controller
       [(''uuid'', VStr ''mem-1''), (''username'', VStr ''new'')] Member_world
     = (Inr \<lparr>cls = Member,
          attrs = [(''uuid'', VStr ''mem-1''), (''username'', VStr ''new''), (''email'', VStr [])]\<rparr>,
        Member_controller, Member_world)"
    by (simp add: controller_set_def auth f Member_construct Member_validate)
  have 2: "controller_update Member_controller
       [(''uuid'', VStr ''mem-1''), (''username'', VStr ''new'')] Member_world
     = (Inr \<lparr>cls = Member, attrs = [(''uuid'', VStr ''mem-1''), (''username'', VStr ''new''),
            (''email'', VStr ''a@b.org'')]\<rparr>,
        Member_controller\<lparr>factory :=
          Member_Factory\<lparr>cached := Some \<lparr>pid = 0, table_name = ''Members''\<rparr>\<rparr>\<rparr>,
        Member_world\<lparr>calls := [GetItem \<lparr>pid = 0, table_name = ''Members''\<rparr> [(''uuid'', VStr ''mem-1'')]],
          created := Suc 0\<rparr>)"
    by (simp add: controller_update_def auth f key_in_def Member_load s Member_validate)
  show ?thesis
    unfolding 1 2 by (simp add: Member_world_def Member_row_def)
qed

section \<open>Objects of plain classes\<close>

lemma key_in_iff: "key_in d k \<longleftrightarrow> map_of d k \<noteq> None"
  by (simp add: key_in_def map_of_eq_None_iff)




lemma update_append_new: "k \<notin> set (map fst al) \<Longrightarrow> AList.update k v al = al @ [(k, v)]"
  by (induction al) auto



lemma setattr_keys:
  "key \<in> set (map fst (attrs obj)) \<Longrightarrow> map fst (attrs (setattr obj key v)) = map fst (attrs obj)"
  by (simp add: setattr_def update_keys)

lemma setattr_map_of: "map_of (attrs (setattr obj key v)) = (map_of (attrs obj))(key \<mapsto> v)"
  by (simp add: setattr_def update_conv')

lemma setattr_cls: "cls (setattr obj key v) = cls obj"
  by (simp add: setattr_def)


section \<open>Object.set_from_data\<close>

lemma set_from_data_loop_result:
  "set keys \<subseteq> set (map fst (attrs obj)) \<Longrightarrow>
   cls (set_from_data_loop keys data obj) = cls obj
   \<and> map fst (attrs (set_from_data_loop keys data obj)) = map fst (attrs obj)
   \<and> (\<forall>key. map_of (attrs (set_from_data_loop keys data obj)) key =
        (if key \<in> set keys \<and> key_in data key then map_of data key
         else map_of (attrs obj) key))"
proof (induction keys arbitrary: obj)
  case Nil
  show ?case by simp
next
  case (Cons k keys)
  let ?o = "case map_of data k of Some v \<Rightarrow> setattr obj k v | None \<Rightarrow> obj"
  have kin: "k \<in> set (map fst (attrs obj))" and sub: "set keys \<subseteq> set (map fst (attrs obj))"
    using Cons.prems by auto
  have o0: "cls ?o = cls obj"
    by (simp add: setattr_cls split: option.split)
  have o1: "map fst (attrs ?o) = map fst (attrs obj)"
    using setattr_keys [OF kin] by (simp split: option.split)
  have o2: "map_of (attrs ?o) key =
      (if key = k \<and> key_in data key then map_of data key else map_of (attrs obj) key)" for key
    by (cases "map_of data k") (auto simp: setattr_map_of key_in_iff)
  have "set keys \<subseteq> set (map fst (attrs ?o))" using sub by (simp only: o1)
  from Cons.IH [OF this]
  have ih: "cls (set_from_data_loop keys data ?o) = cls ?o"
    "map fst (attrs (set_from_data_loop keys data ?o)) = map fst (attrs ?o)"
    "\<And>key. map_of (attrs (set_from_data_loop keys data ?o)) key =
        (if key \<in> set keys \<and> key_in data key then map_of data key
         else map_of (attrs ?o) key)"
    by simp_all
  have step: "set_from_data_loop (k # keys) data obj = set_from_data_loop keys data ?o"
    by simp
  show ?case
    unfolding step
    by (simp only: ih o0 o1 o2) auto
qed

lemma set_from_data_result:
  "cls (set_from_data obj data) = cls obj
   \<and> map fst (attrs (set_from_data obj data)) = map fst (attrs obj)
   \<and> (\<forall>key. map_of (attrs (set_from_data obj data)) key =
        (if key_in (attrs obj) key \<and> key_in data key then map_of data key
         else map_of (attrs obj) key))"
  using set_from_data_loop_result [of "map fst (attrs obj)" obj data]
  by (simp add: set_from_data_def key_in_def)

text \<open>
  C5. \<^verbatim>\<open>Controller.update(data)\<close>, called by an authorized caller, raises
  \<^verbatim>\<open>ClientErrorException('No uuid specified.')\<close> when \<^verbatim>\<open>data\<close> has no \<^verbatim>\<open>uuid\<close> or a
  falsy one. Otherwise it loads the record by that uuid and applies \<^verbatim>\<open>set_from_data\<close> to
  the loaded object, which it returns once validated. \<^verbatim>\<open>set_from_data\<close> keeps the class
  and the attribute names of the object, gives every attribute whose name is a key of
  \<^verbatim>\<open>data\<close> the value \<^verbatim>\<open>data\<close> has for it, and leaves every other attribute as it was; a
  key of \<^verbatim>\<open>data\<close> that is not an attribute of the object adds nothing.
\<close>

theorem controller_update_overwrites_named_fields:
  assumes "require_role crud_roles (user c)"
  shows "controller_update c data w =
     (case map_of data ''uuid'' of
        None \<Rightarrow> (Inl (ClientErrorException ''No uuid specified.''), c, w)
      | Some uuid \<Rightarrow>
          if truthy uuid then
            (case load_by_uuid (factory c) uuid w of
               (Inl e, f', w') \<Rightarrow> (Inl e, c\<lparr>factory := f'\<rparr>, w')
             | (Inr loaded, f', w') \<Rightarrow>
                 (case validate (set_from_data loaded data) of
                    Inl e \<Rightarrow> (Inl e, c\<lparr>factory := f'\<rparr>, w')
                  | Inr u \<Rightarrow> (Inr (set_from_data loaded data), c\<lparr>factory := f'\<rparr>, w')))
          else (Inl (ClientErrorException ''No uuid specified.''), c, w))
   \<and> cls (set_from_data obj data) = cls obj
   \<and> map fst (attrs (set_from_data obj data)) = map fst (attrs obj)
   \<and> (\<forall>key. map_of (attrs (set_from_data obj data)) key =
        (if key_in (attrs obj) key \<and> key_in data key then map_of data key
         else map_of (attrs obj) key))"
proof -
  have "controller_update c data w =
     (case map_of data ''uuid'' of
        None \<Rightarrow> (Inl (ClientErrorException ''No uuid specified.''), c, w)
      | Some uuid \<Rightarrow>
          if truthy uuid then
            (case load_by_uuid (factory c) uuid w of
               (Inl e, f', w') \<Rightarrow> (Inl e, c\<lparr>factory := f'\<rparr>, w')
             | (Inr loaded, f', w') \<Rightarrow>
                 (case validate (set_from_data loaded data) of
                    Inl e \<Rightarrow> (Inl e, c\<lparr>factory := f'\<rparr>, w')
                  | Inr u \<Rightarrow> (Inr (set_from_data loaded data), c\<lparr>factory := f'\<rparr>, w')))
          else (Inl (ClientErrorException ''No uuid specified.''), c, w))"
    by (cases "map_of data ''uuid''") (simp_all add: controller_update_def assms key_in_iff)
  then show ?thesis using set_from_data_result [of obj data] by simp
qed

theorem controller_update_overwrites_named_fields_witness:
  "require_role crud_roles (user Member_controller)
   \<and> controller_update Member_controller [] Member_world
     = (Inl (ClientErrorException ''No uuid specified.''), Member_controller, Member_world)
   \<and> fst (controller_update Member_controller
       [(''uuid'', VStr ''mem-1''), (''username'', VStr ''new''), (''shoe_size'', VInt 9)]
       Member_world)
     = Inr (set_from_data \<lparr>cls = Member, attrs = Member_row\<rparr>
         [(''uuid'', VStr ''mem-1''), (''username'', VStr ''new''), (''shoe_size'', VInt 9)])
   \<and> map_of (attrs (set_from_data \<lparr>cls = Member, attrs = Member_row\<rparr>
         [(''uuid'', VStr ''mem-1''), (''username'', VStr ''new''), (''shoe_size'', VInt 9)]))
       ''username'' = Some (VStr ''new'')
   \<and> map_of (attrs (set_from_data \<lparr>cls = Member, attrs = Member_row\<rparr>
         [(''uuid'', VStr ''mem-1''), (''username'', VStr ''new''), (''shoe_size'', VInt 9)]))
       ''email'' = Some (VStr ''a@b.org'')
   \<and> map_of (attrs (set_from_data \<lparr>cls = Member, attrs = Member_row\<rparr>
         [(''uuid'', VStr ''mem-1''), (''username'', VStr ''new''), (''shoe_size'', VInt 9)]))
       ''shoe_size'' = None"
proof -
  let ?data = "[(''uuid'', VStr ''mem-1''), (''username'', VStr ''new''), (''shoe_size'', VInt 9)]"
  let ?obj = "\<lparr>cls = Member, attrs = Member_row\<rparr>"
  have auth: "require_role crud_roles (user Member_controller)"
    by (simp add: require_role_def crud_roles_def Member_controller_def)
  have f: "factory Member_controller = Member_Factory"
    by (simp add: Member_controller_def)
  have s: "set_from_data ?obj ?data
      = \<lparr>cls = Member, attrs = [(''uuid'', VStr ''mem-1''), (''username'', VStr ''new''),
            (''email'', VStr ''a@b.org'')]\<rparr>"
    by (simp add: set_from_data_def Member_row_def setattr_def)
  have v: "validate (set_from_data ?obj ?data) = Inr ()"
    unfolding s by (rule Member_validate) simp_all
  note t1 = controller_update_overwrites_named_fields [OF auth, of "[]" Member_world ?obj]
  note t2 = controller_update_overwrites_named_fields [OF auth, of ?data Member_world ?obj]
  have a: "controller_update Member_controller [] Member_world
     = (Inl (ClientErrorException ''No uuid specified.''), Member_controller, Member_world)"
    using t1 by simp
  have b: "fst (controller_update Member_controller ?data Member_world)
     = Inr (set_from_data ?obj ?data)"
    using t2 by (simp add: f Member_load v)
  have c: "map_of (attrs (set_from_data ?obj ?data)) ''username'' = Some (VStr ''new'')"
    "map_of (attrs (set_from_data ?obj ?data)) ''email'' = Some (VStr ''a@b.org'')"
    "map_of (attrs (set_from_data ?obj ?data)) ''shoe_size'' = None"
    using t2 by (simp_all add: key_in_def Member_row_def)
  from auth a b c show ?thesis by simp
qed

section \<open>Factory.construct\<close>







section \<open>Factory.load_from_database_query\<close>








section \<open>The cached persister\<close>





section \<open>Persister.save\<close>

lemma to_dict_loop_distinct:
  "to_dict_loop xs acc = Inr d \<Longrightarrow> distinct (map fst acc) \<Longrightarrow> distinct (map fst d)"
proof (induction xs arbitrary: acc)
  case Nil
  then show ?case by simp
next
  case (Cons a xs)
  obtain key v where a: "a = (key, v)" by (cases a)
  show ?case
  proof (cases "exposed_name key")
    case (Inl e)
    with Cons.prems(1) show ?thesis by (simp add: a)
  next
    case (Inr name)
    with Cons.prems(1) have "to_dict_loop xs (AList.update name v acc) = Inr d"
      by (simp add: a)
    moreover have "distinct (map fst (AList.update name v acc))"
      using Cons.prems(2) by (rule distinct_update)
    ultimately show ?thesis by (rule Cons.IH)
  qed
qed

lemma to_dict_distinct: "to_dict obj = Inr d \<Longrightarrow> distinct (map fst d)"
  using to_dict_loop_distinct [of "attrs obj" "[]" d] by (simp add: to_dict_def)

lemma persistable_loop_filter:
  "distinct (map fst d) \<Longrightarrow> set (map fst d) \<inter> set (map fst acc) = {} \<Longrightarrow>
   persistable_loop d acc = acc @ filter (\<lambda>(key, v). v \<noteq> VStr []) d"
proof (induction d arbitrary: acc)
  case Nil
  show ?case by simp
next
  case (Cons a d)
  obtain key v where a: "a = (key, v)" by (cases a)
  from Cons.prems have k: "key \<notin> set (map fst acc)"
    and r: "distinct (map fst d)" "set (map fst d) \<inter> set (map fst acc) = {}"
      "set (map fst d) \<inter> set (map fst (acc @ [(key, v)])) = {}"
    by (auto simp: a)
  show ?case
  proof (cases "v = VStr []")
    case True
    with Cons.IH [OF r(1) r(2)] show ?thesis by (simp add: a)
  next
    case False
    with Cons.IH [OF r(1) r(3)] k show ?thesis by (simp add: a update_append_new)
  qed
qed

lemma map_of_filter_values:
  "distinct (map fst d) \<Longrightarrow>
   map_of (filter (\<lambda>(key, v). P v) d) key =
     (case map_of d key of None \<Rightarrow> None | Some v \<Rightarrow> if P v then Some v else None)"
proof (induction d)
  case Nil
  show ?case by simp
next
  case (Cons a d)
  obtain k v where a: "a = (k, v)" by (cases a)
  from Cons.prems have nk: "k \<notin> fst ` set d" and dd: "distinct (map fst d)"
    by (auto simp: a)
  have n1: "map_of (filter (\<lambda>(key, v). P v) d) k = None"
    using nk by (auto simp: map_of_eq_None_iff)
  note ih = Cons.IH [OF dd]
  show ?case
  proof (cases "key = k")
    case True
    then show ?thesis by (simp add: a n1)
  next
    case False
    then show ?thesis by (simp add: a ih)
  qed
qed

text \<open>
  C6. \<^verbatim>\<open>Persister.save(obj)\<close> validates first and returns the validation error, with
  no write, when there is one. Otherwise it makes one \<^verbatim>\<open>put_item\<close> whose item is
  \<^verbatim>\<open>obj.to_dict()\<close> without the keys whose value is the empty string: such a key is not
  in the item, and every other key is, with its value.
\<close>

theorem save_strips_empty_strings:
  assumes "to_dict obj = Inr d"
  shows "save p obj w =
       (case validate obj of
          Inl e \<Rightarrow> (Inl e, w)
        | Inr u \<Rightarrow> (Inr (), put_item p (filter (\<lambda>(key, v). v \<noteq> VStr []) d) w))
     \<and> calls (put_item p (filter (\<lambda>(key, v). v \<noteq> VStr []) d) w)
         = calls w @ [PutItem p (filter (\<lambda>(key, v). v \<noteq> VStr []) d)]
     \<and> (\<forall>key. map_of (filter (\<lambda>(key, v). v \<noteq> VStr []) d) key =
          (if map_of d key = Some (VStr []) then None else map_of d key))"
proof -
  have dd: "distinct (map fst d)" using assms by (rule to_dict_distinct)
  have g: "get_persistable_object obj = Inr (filter (\<lambda>(key, v). v \<noteq> VStr []) d)"
    using persistable_loop_filter [OF dd, of "[]"]
    by (simp add: get_persistable_object_def assms)
  have 1: "save p obj w =
       (case validate obj of
          Inl e \<Rightarrow> (Inl e, w)
        | Inr u \<Rightarrow> (Inr (), put_item p (filter (\<lambda>(key, v). v \<noteq> VStr []) d) w))"
    by (simp add: save_def g split: sum.split)
  have 2: "calls (put_item p (filter (\<lambda>(key, v). v \<noteq> VStr []) d) w)
         = calls w @ [PutItem p (filter (\<lambda>(key, v). v \<noteq> VStr []) d)]"
    by (simp add: put_item_def)
  have 3: "map_of (filter (\<lambda>(key, v). v \<noteq> VStr []) d) key =
          (if map_of d key = Some (VStr []) then None else map_of d key)" for key
    using map_of_filter_values [OF dd, of "\<lambda>v. v \<noteq> VStr []" key]
    by (cases "map_of d key") auto
  from 1 2 3 show ?thesis by blast
qed

theorem save_strips_empty_strings_witness:
  "to_dict \<lparr>cls = Member, attrs = [(''uuid'', VStr ''mem-2''), (''username'', VStr ''bob''),
        (''email'', VStr [])]\<rparr>
     = Inr [(''uuid'', VStr ''mem-2''), (''username'', VStr ''bob''), (''email'', VStr [])]
   \<and> save \<lparr>pid = 0, table_name = ''Members''\<rparr>
        \<lparr>cls = Member, attrs = [(''uuid'', VStr ''mem-2''), (''username'', VStr ''bob''),
        (''email'', VStr [])]\<rparr> Member_world
     = (Inr (), put_item \<lparr>pid = 0, table_name = ''Members''\<rparr>
          [(''uuid'', VStr ''mem-2''), (''username'', VStr ''bob'')] Member_world)"
proof -
  note d = Member_to_dict [of "VStr ''mem-2''" "VStr ''bob''" "VStr []"]
  have v: "validate \<lparr>cls = Member, attrs = [(''uuid'', VStr ''mem-2''),
      (''username'', VStr ''bob''), (''email'', VStr [])]\<rparr> = Inr ()"
    by (rule Member_validate) simp_all
  from save_strips_empty_strings [OF d, of "\<lparr>pid = 0, table_name = ''Members''\<rparr>" Member_world] d
  show ?thesis by (simp add: v)
qed

section \<open>The round trip through to_dict and construct\<close>

lemma plain_name_exposed: "plain_name n \<Longrightarrow> exposed n = n"
  by (cases n) (simp_all add: plain_name_def exposed_def)



lemma exposed_names_simps [simp]:
  "exposed_names [] = []"
  "exposed_names ((key, v) # d) = exposed key # exposed_names d"
  "exposed_names (xs @ ys) = exposed_names xs @ exposed_names ys"
  by (simp_all add: exposed_names_def)

lemma dict_of_attrs_simps [simp]:
  "dict_of_attrs [] = []"
  "dict_of_attrs ((key, v) # d) = (exposed key, v) # dict_of_attrs d"
  "dict_of_attrs (xs @ ys) = dict_of_attrs xs @ dict_of_attrs ys"
  by (simp_all add: dict_of_attrs_def)




lemma exposed_names_plain: "list_all plain_name (map fst d) \<Longrightarrow> exposed_names d = map fst d"
  by (induction d) (auto simp: plain_name_exposed)







lemma plain_keys_exposes_well: "plain_keys d \<Longrightarrow> exposes_well d"
  by (simp add: plain_keys_def exposes_well_def exposed_names_plain)











end
